theory Spec2Isabelle
  imports Complex_Main "HOL-Library.Word"
begin

section \<open>Sampler parameters\<close>

text \<open>
  Modelled from the spec: the enumeration \<open>HdWrap\<close> is declared in
  \<open>pxr/imaging/hd/enums.h\<close>, which is not part of the sources at hand. The spec lists its
  members as Clamp, Repeat, Mirror, Black, NoOpinion and LegacyNoOpinionFallbackRepeat;
  \<open>samplerObject.cpp\<close> names \<open>HdWrapNoOpinion\<close>,
  \<open>HdWrapLegacyNoOpinionFallbackRepeat\<close> and \<open>HdWrapRepeat\<close>.
\<close>

datatype HdWrap =
    HdWrapClamp
  | HdWrapRepeat
  | HdWrapMirror
  | HdWrapBlack
  | HdWrapNoOpinion
  | HdWrapLegacyNoOpinionFallbackRepeat

text \<open>
  \<open>HdStSamplerParameters\<close> has the five fields that \<open>operator==\<close> compares. The two
  filter enumerations are declared outside the sources at hand, and nothing in
  \<open>samplerObject.cpp\<close> inspects a filter value, so the record is polymorphic in them:
  every statement below holds whatever the members of the two enumerations are.
\<close>

record ('minf, 'magf) HdStSamplerParameters =
  wrapS :: HdWrap
  wrapT :: HdWrap
  wrapR :: HdWrap
  minFilter :: 'minf
  magFilter :: 'magf

text \<open>
  Modelled from the spec: the filter modes the spec names (Nearest, Linear), used where a
  concrete filter value has to be written down.
\<close>

datatype HdMinFilter = HdMinFilterNearest | HdMinFilterLinear

datatype HdMagFilter = HdMagFilterNearest | HdMagFilterLinear

text \<open>\<open>HdStSamplerParameters::operator==\<close> and \<open>operator!=\<close>.\<close>

definition HdStSamplerParameters_eq ::
  "('minf, 'magf) HdStSamplerParameters \<Rightarrow> ('minf, 'magf) HdStSamplerParameters \<Rightarrow> bool" where
  "HdStSamplerParameters_eq this other =
    ((wrapS this = wrapS other) \<and>
     (wrapT this = wrapT other) \<and>
     (wrapR this = wrapR other) \<and>
     (minFilter this = minFilter other) \<and>
     (magFilter this = magFilter other))"

definition HdStSamplerParameters_neq ::
  "('minf, 'magf) HdStSamplerParameters \<Rightarrow> ('minf, 'magf) HdStSamplerParameters \<Rightarrow> bool" where
  "HdStSamplerParameters_neq this other = (\<not> HdStSamplerParameters_eq this other)"

section \<open>Resolution of wrap parameters (Uv sampler)\<close>

text \<open>
  \<open>_ResolveSamplerParameter\<close> updates \<open>*parameter\<close> in place with two consecutive
  \<open>if\<close> statements; the second one reads the value the first one may have written.
  The model returns the final value of \<open>*parameter\<close>.
\<close>

definition ResolveSamplerParameter :: "HdWrap \<Rightarrow> HdWrap \<Rightarrow> HdWrap" where
  "ResolveSamplerParameter textureOpinion parameter =
    (let parameter1 =
           (if parameter = HdWrapNoOpinion then textureOpinion else parameter)
     in if parameter1 = HdWrapLegacyNoOpinionFallbackRepeat
        then (if textureOpinion = HdWrapNoOpinion then HdWrapRepeat else textureOpinion)
        else parameter1)"

text \<open>
  The part of \<open>HdStUvTextureObject\<close> that the sampler reads: the wrap opinions authored
  in the texture file and the texture handle. \<open>HgiTextureHandle::Get\<close> may yield
  \<open>nullptr\<close> (\<open>None\<close>); the \<open>dynamic_cast\<close> to \<open>HgiGLTexture\<close> succeeds on an OpenGL
  texture, which has a texture id, and fails on any other backing.
\<close>

datatype HgiTexture =
    HgiGLTexture (GetTextureId: "32 word")
  | HgiOtherTexture

record HdStUvTextureObject =
  GetWrapParameters :: "HdWrap \<times> HdWrap"
  uvGetTexture :: "HgiTexture option"

definition ResolveUvSamplerParameters ::
  "HdStUvTextureObject \<Rightarrow> ('minf, 'magf) HdStSamplerParameters
    \<Rightarrow> ('minf, 'magf) HdStSamplerParameters" where
  "ResolveUvSamplerParameters texture samplerParameters =
    (let result = samplerParameters;
         result = result\<lparr>wrapS :=
           ResolveSamplerParameter (fst (GetWrapParameters texture)) (wrapS result)\<rparr>;
         result = result\<lparr>wrapT :=
           ResolveSamplerParameter (snd (GetWrapParameters texture)) (wrapT result)\<rparr>
     in result)"

section \<open>The device and the diagnostics\<close>

text \<open>
  The OpenGL symbols come from \<open>glew.h\<close>; the parameter names are kept symbolic.
\<close>

datatype GLpname =
    GL_TEXTURE_WRAP_S
  | GL_TEXTURE_WRAP_T
  | GL_TEXTURE_WRAP_R
  | GL_TEXTURE_MIN_FILTER
  | GL_TEXTURE_MAG_FILTER
  | GL_TEXTURE_BORDER_COLOR
  | GL_TEXTURE_MAX_ANISOTROPY_EXT

text \<open>
  Everything \<open>samplerObject.cpp\<close> does outside its own values is an event: a call of the
  OpenGL API with its arguments, the poll of the pending OpenGL errors
  (\<open>GLF_POST_PENDING_GL_ERRORS\<close>), or a coding error posted to the diagnostics
  (\<open>TF_CODING_ERROR\<close>). \<open>GLuint\<close> is a 32-bit word, \<open>GLuint64EXT\<close> a 64-bit word.
\<close>

datatype event =
    GlGenSamplers nat
  | GlSamplerParameteri "32 word" GLpname "32 word"
  | GlSamplerParameterfv "32 word" GLpname "real list"
  | GlSamplerParameterf "32 word" GLpname real
  | GlGetTextureSamplerHandleARB "32 word" "32 word"
  | GlGetTextureHandleARB "32 word"
  | GlMakeTextureHandleResidentARB "64 word"
  | GlMakeTextureHandleNonResidentARB "64 word"
  | GlDeleteSamplers nat "32 word"
  | GlfPostPendingGLErrors
  | TfCodingError string

text \<open>
  The device is outside the program: what it answers is a parameter. An answer may depend
  on all that happened before (the history of events). \<open>glGenSamplers\<close> writes the new
  name into \<open>result\<close>, which was initialised to zero; a device that writes nothing is one
  that answers zero.
\<close>

record GLDevice =
  answerGenSamplers :: "event list \<Rightarrow> 32 word"
  answerGetTextureSamplerHandleARB :: "event list \<Rightarrow> 32 word \<Rightarrow> 32 word \<Rightarrow> 64 word"
  answerGetTextureHandleARB :: "event list \<Rightarrow> 32 word \<Rightarrow> 64 word"

text \<open>
  \<open>HdStGLConversions\<close> (\<open>glConversions.h\<close>) is not part of the sources at hand: its three
  functions are parameters.
\<close>

record ('minf, 'magf) HdStGLConversions =
  GetWrap :: "HdWrap \<Rightarrow> 32 word"
  GetMinFilter :: "'minf \<Rightarrow> 32 word"
  GetMagFilter :: "'magf \<Rightarrow> 32 word"

text \<open>Which events are what.\<close>

fun is_device_call :: "event \<Rightarrow> bool" where
  "is_device_call (TfCodingError msg) = False"
| "is_device_call e = True"

fun is_GenSamplers :: "event \<Rightarrow> bool" where
  "is_GenSamplers (GlGenSamplers n) = True"
| "is_GenSamplers e = False"

fun is_DeleteSamplers :: "event \<Rightarrow> bool" where
  "is_DeleteSamplers (GlDeleteSamplers n name) = True"
| "is_DeleteSamplers e = False"

fun is_handle_query :: "event \<Rightarrow> bool" where
  "is_handle_query (GlGetTextureSamplerHandleARB textureName samplerName) = True"
| "is_handle_query (GlGetTextureHandleARB textureName) = True"
| "is_handle_query e = False"

fun is_MakeResident :: "event \<Rightarrow> bool" where
  "is_MakeResident (GlMakeTextureHandleResidentARB h) = True"
| "is_MakeResident e = False"

fun is_MakeNonResident :: "event \<Rightarrow> bool" where
  "is_MakeNonResident (GlMakeTextureHandleNonResidentARB h) = True"
| "is_MakeNonResident e = False"

fun is_CodingError :: "event \<Rightarrow> bool" where
  "is_CodingError (TfCodingError msg) = True"
| "is_CodingError e = False"

section \<open>Helpers\<close>

text \<open>
  Every operation takes the device and the history of events so far, and returns its
  value together with the events it issues, in order.
\<close>

definition borderColor :: "real list" where
  "borderColor = [0, 0, 0, 0]"

definition maxAnisotropy :: real where
  "maxAnisotropy = 16"

definition GenGLSampler ::
  "('minf, 'magf) HdStGLConversions \<Rightarrow> GLDevice \<Rightarrow> event list
    \<Rightarrow> ('minf, 'magf) HdStSamplerParameters \<Rightarrow> 32 word \<times> event list" where
  "GenGLSampler conv dev hist samplerParameters =
    (let result = answerGenSamplers dev hist
     in (result,
         [GlGenSamplers 1,
          GlSamplerParameteri result GL_TEXTURE_WRAP_S
            (GetWrap conv (wrapS samplerParameters)),
          GlSamplerParameteri result GL_TEXTURE_WRAP_T
            (GetWrap conv (wrapT samplerParameters)),
          GlSamplerParameteri result GL_TEXTURE_WRAP_R
            (GetWrap conv (wrapR samplerParameters)),
          GlSamplerParameteri result GL_TEXTURE_MIN_FILTER
            (GetMinFilter conv (minFilter samplerParameters)),
          GlSamplerParameteri result GL_TEXTURE_MAG_FILTER
            (GetMagFilter conv (magFilter samplerParameters)),
          GlSamplerParameterfv result GL_TEXTURE_BORDER_COLOR borderColor,
          GlSamplerParameterf result GL_TEXTURE_MAX_ANISOTROPY_EXT maxAnisotropy,
          GlfPostPendingGLErrors]))"

definition GenGLTextureSamplerHandle ::
  "GLDevice \<Rightarrow> event list \<Rightarrow> HgiTexture option \<Rightarrow> 32 word \<Rightarrow> bool
    \<Rightarrow> 64 word \<times> event list" where
  "GenGLTextureSamplerHandle dev hist textureHandle samplerName createBindlessHandle =
    (if \<not> createBindlessHandle then (0, [])
     else case textureHandle of
       None \<Rightarrow> (0, [])
     | Some HgiOtherTexture \<Rightarrow> (0, [TfCodingError ''Only OpenGL textures supported''])
     | Some (HgiGLTexture textureName) \<Rightarrow>
         if textureName = 0 then (0, [])
         else if samplerName = 0 then (0, [])
         else
           let result = answerGetTextureSamplerHandleARB dev hist textureName samplerName
           in (result,
               [GlGetTextureSamplerHandleARB textureName samplerName,
                GlMakeTextureHandleResidentARB result,
                GlfPostPendingGLErrors]))"

definition GenGlTextureHandle ::
  "GLDevice \<Rightarrow> event list \<Rightarrow> 32 word \<Rightarrow> bool \<Rightarrow> 64 word \<times> event list" where
  "GenGlTextureHandle dev hist textureName createGLTextureHandle =
    (if \<not> createGLTextureHandle then (0, [])
     else if textureName = 0 then (0, [])
     else
       let result = answerGetTextureHandleARB dev hist textureName
       in (result,
           [GlGetTextureHandleARB textureName,
            GlMakeTextureHandleResidentARB result,
            GlfPostPendingGLErrors]))"

section \<open>The three sampler objects\<close>

text \<open>
  C++ initialises members in the order of their declaration, and the header that declares
  them is not part of the sources at hand. The second initialiser of the Uv and Field
  samplers reads the first member, which is defined only when that member is declared
  first: the model takes the order in which the initialiser lists are written.
\<close>

record HdStUvSamplerObject =
  uv_glSamplerName :: "32 word"
  uv_glTextureSamplerHandle :: "64 word"

definition HdStUvSamplerObject_new ::
  "('minf, 'magf) HdStGLConversions \<Rightarrow> GLDevice \<Rightarrow> event list \<Rightarrow> HdStUvTextureObject
    \<Rightarrow> ('minf, 'magf) HdStSamplerParameters \<Rightarrow> bool
    \<Rightarrow> HdStUvSamplerObject \<times> event list" where
  "HdStUvSamplerObject_new conv dev hist texture samplerParameters createBindlessHandle =
    (let (glSamplerName, evs1) =
           GenGLSampler conv dev hist
             (ResolveUvSamplerParameters texture samplerParameters);
         (glTextureSamplerHandle, evs2) =
           GenGLTextureSamplerHandle dev (hist @ evs1)
             (uvGetTexture texture) glSamplerName createBindlessHandle
     in (\<lparr>uv_glSamplerName = glSamplerName,
          uv_glTextureSamplerHandle = glTextureSamplerHandle\<rparr>,
         evs1 @ evs2))"

definition HdStUvSamplerObject_delete :: "HdStUvSamplerObject \<Rightarrow> event list" where
  "HdStUvSamplerObject_delete this =
    (if uv_glSamplerName this \<noteq> 0
     then [GlDeleteSamplers 1 (uv_glSamplerName this)]
     else [])"

record HdStFieldTextureObject =
  fieldGetTexture :: "HgiTexture option"

record HdStFieldSamplerObject =
  field_glSamplerName :: "32 word"
  field_glTextureSamplerHandle :: "64 word"

definition HdStFieldSamplerObject_new ::
  "('minf, 'magf) HdStGLConversions \<Rightarrow> GLDevice \<Rightarrow> event list \<Rightarrow> HdStFieldTextureObject
    \<Rightarrow> ('minf, 'magf) HdStSamplerParameters \<Rightarrow> bool
    \<Rightarrow> HdStFieldSamplerObject \<times> event list" where
  "HdStFieldSamplerObject_new conv dev hist texture samplerParameters createBindlessHandle =
    (let (glSamplerName, evs1) = GenGLSampler conv dev hist samplerParameters;
         (glTextureSamplerHandle, evs2) =
           GenGLTextureSamplerHandle dev (hist @ evs1)
             (fieldGetTexture texture) glSamplerName createBindlessHandle
     in (\<lparr>field_glSamplerName = glSamplerName,
          field_glTextureSamplerHandle = glTextureSamplerHandle\<rparr>,
         evs1 @ evs2))"

definition HdStFieldSamplerObject_delete :: "HdStFieldSamplerObject \<Rightarrow> event list" where
  "HdStFieldSamplerObject_delete this =
    (if field_glSamplerName this \<noteq> 0
     then [GlDeleteSamplers 1 (field_glSamplerName this)]
     else [])"

record HdStPtexTextureObject =
  GetTexelGLTextureName :: "32 word"
  GetLayoutGLTextureName :: "32 word"

record HdStPtexSamplerObject =
  texelsGLTextureHandle :: "64 word"
  layoutGLTextureHandle :: "64 word"

definition HdStPtexSamplerObject_new ::
  "GLDevice \<Rightarrow> event list \<Rightarrow> HdStPtexTextureObject
    \<Rightarrow> ('minf, 'magf) HdStSamplerParameters \<Rightarrow> bool
    \<Rightarrow> HdStPtexSamplerObject \<times> event list" where
  "HdStPtexSamplerObject_new dev hist ptexTexture samplerParameters createBindlessHandle =
    (let (texels, evs1) =
           GenGlTextureHandle dev hist
             (GetTexelGLTextureName ptexTexture) createBindlessHandle;
         (layout, evs2) =
           GenGlTextureHandle dev (hist @ evs1)
             (GetLayoutGLTextureName ptexTexture) createBindlessHandle
     in (\<lparr>texelsGLTextureHandle = texels, layoutGLTextureHandle = layout\<rparr>,
         evs1 @ evs2))"

definition HdStPtexSamplerObject_delete :: "HdStPtexSamplerObject \<Rightarrow> event list" where
  "HdStPtexSamplerObject_delete this =
    (if texelsGLTextureHandle this \<noteq> 0
       then [GlMakeTextureHandleNonResidentARB (texelsGLTextureHandle this)]
       else []) @
    (if layoutGLTextureHandle this \<noteq> 0
       then [GlMakeTextureHandleNonResidentARB (layoutGLTextureHandle this)]
       else [])"

text \<open>
  The guards of the two handle derivations in the words of the spec: the create flag is
  false, the texture resource is absent, its backing is not the native kind, the native
  identifier is zero, or the device sampler is zero.
\<close>

definition sampler_texture_guard :: "HgiTexture option \<Rightarrow> 32 word \<Rightarrow> bool \<Rightarrow> bool" where
  "sampler_texture_guard textureHandle samplerName createFlag =
    (\<not> createFlag \<or> textureHandle = None \<or> textureHandle = Some HgiOtherTexture \<or>
     textureHandle = Some (HgiGLTexture 0) \<or> samplerName = 0)"

definition texture_only_guard :: "32 word \<Rightarrow> bool \<Rightarrow> bool" where
  "texture_only_guard textureName createFlag = (\<not> createFlag \<or> textureName = 0)"

text \<open>A device for concrete runs: it always answers the same name and the same handle.\<close>

definition constDevice :: "32 word \<Rightarrow> 64 word \<Rightarrow> GLDevice" where
  "constDevice name handle =
    \<lparr>answerGenSamplers = (\<lambda>hist. name),
     answerGetTextureSamplerHandleARB = (\<lambda>hist textureName samplerName. handle),
     answerGetTextureHandleARB = (\<lambda>hist textureName. handle)\<rparr>"

section \<open>Properties of the resolver\<close>

text \<open>
  The two consecutive \<open>if\<close> statements compute the three-step algorithm of the spec
  (no caller opinion, legacy sentinel, explicit opinion).
\<close>

lemma ResolveSamplerParameter_cases:
  "ResolveSamplerParameter t p =
    (if p = HdWrapNoOpinion then t
     else if p = HdWrapLegacyNoOpinionFallbackRepeat
       then (if t = HdWrapNoOpinion then HdWrapRepeat else t)
     else p)"
  by (cases t; cases p; simp add: ResolveSamplerParameter_def)

text \<open>
  C1, as stated, fails: with no opinion on either side the resolver returns
  \<open>HdWrapNoOpinion\<close>.
\<close>

theorem ResolveSamplerParameter_NoOpinion_counterexample:
  "ResolveSamplerParameter HdWrapNoOpinion HdWrapNoOpinion = HdWrapNoOpinion"
  by (simp add: ResolveSamplerParameter_def)

text \<open>
  C1 (amended): for every pair (textureOpinion, callerParameter) other than
  (NoOpinion, NoOpinion), (LegacyNoOpinionFallbackRepeat, NoOpinion) and
  (LegacyNoOpinionFallbackRepeat, LegacyNoOpinionFallbackRepeat), the resolved value is
  neither \<open>HdWrapNoOpinion\<close> nor \<open>HdWrapLegacyNoOpinionFallbackRepeat\<close>; at each of the
  three excluded pairs the resolver returns the texture opinion.
\<close>

theorem ResolveSamplerParameter_resolved:
  "(\<not> (t = HdWrapNoOpinion \<and> p = HdWrapNoOpinion) \<and>
    \<not> (t = HdWrapLegacyNoOpinionFallbackRepeat \<and>
       (p = HdWrapNoOpinion \<or> p = HdWrapLegacyNoOpinionFallbackRepeat))
    \<longrightarrow> ResolveSamplerParameter t p \<noteq> HdWrapNoOpinion \<and>
        ResolveSamplerParameter t p \<noteq> HdWrapLegacyNoOpinionFallbackRepeat) \<and>
   ResolveSamplerParameter HdWrapNoOpinion HdWrapNoOpinion = HdWrapNoOpinion \<and>
   ResolveSamplerParameter HdWrapLegacyNoOpinionFallbackRepeat HdWrapNoOpinion =
     HdWrapLegacyNoOpinionFallbackRepeat \<and>
   ResolveSamplerParameter HdWrapLegacyNoOpinionFallbackRepeat
     HdWrapLegacyNoOpinionFallbackRepeat = HdWrapLegacyNoOpinionFallbackRepeat"
  by (cases t; cases p; simp add: ResolveSamplerParameter_def)

theorem ResolveSamplerParameter_resolved_witness:
  "ResolveSamplerParameter HdWrapNoOpinion HdWrapLegacyNoOpinionFallbackRepeat
     \<noteq> HdWrapNoOpinion \<and>
   ResolveSamplerParameter HdWrapNoOpinion HdWrapLegacyNoOpinionFallbackRepeat
     \<noteq> HdWrapLegacyNoOpinionFallbackRepeat"
  using ResolveSamplerParameter_resolved
    [of HdWrapNoOpinion HdWrapLegacyNoOpinionFallbackRepeat]
  by simp

text \<open>
  C6: resolve(Repeat, NoOpinion) = Repeat; resolve(NoOpinion, LegacyNoOpinionFallbackRepeat)
  = Repeat; resolve(Clamp, LegacyNoOpinionFallbackRepeat) = Clamp; for every texture
  opinion, resolve(textureOpinion, Mirror) = Mirror; and, in general, an explicit caller
  opinion (any value other than NoOpinion and LegacyNoOpinionFallbackRepeat) is returned
  unchanged, whatever the texture opinion.
\<close>

theorem ResolveSamplerParameter_specific_cases:
  "ResolveSamplerParameter HdWrapRepeat HdWrapNoOpinion = HdWrapRepeat \<and>
   ResolveSamplerParameter HdWrapNoOpinion HdWrapLegacyNoOpinionFallbackRepeat =
     HdWrapRepeat \<and>
   ResolveSamplerParameter HdWrapClamp HdWrapLegacyNoOpinionFallbackRepeat = HdWrapClamp \<and>
   (\<forall>textureOpinion. ResolveSamplerParameter textureOpinion HdWrapMirror = HdWrapMirror) \<and>
   (\<forall>textureOpinion parameter.
      parameter \<noteq> HdWrapNoOpinion \<and> parameter \<noteq> HdWrapLegacyNoOpinionFallbackRepeat
      \<longrightarrow> ResolveSamplerParameter textureOpinion parameter = parameter)"
  by (simp add: ResolveSamplerParameter_def)

theorem ResolveSamplerParameter_specific_cases_witness:
  "ResolveSamplerParameter HdWrapRepeat HdWrapClamp = HdWrapClamp \<and>
   ResolveSamplerParameter HdWrapLegacyNoOpinionFallbackRepeat HdWrapBlack = HdWrapBlack \<and>
   ResolveSamplerParameter HdWrapNoOpinion HdWrapRepeat = HdWrapRepeat"
proof -
  from ResolveSamplerParameter_specific_cases
  have explicit: "\<And>textureOpinion parameter.
      parameter \<noteq> HdWrapNoOpinion \<Longrightarrow>
      parameter \<noteq> HdWrapLegacyNoOpinionFallbackRepeat \<Longrightarrow>
      ResolveSamplerParameter textureOpinion parameter = parameter"
    by blast
  show ?thesis
    by (simp add: explicit)
qed

text \<open>
  C10: for a fixed texture opinion the resolver is idempotent:
  resolve(t, resolve(t, p)) = resolve(t, p) for every pair (t, p).
\<close>

theorem ResolveSamplerParameter_idempotent:
  "ResolveSamplerParameter t (ResolveSamplerParameter t p) = ResolveSamplerParameter t p"
  by (cases t; cases p; simp add: ResolveSamplerParameter_def)

text \<open>
  C8: \<open>_ResolveUvSamplerParameters\<close> changes at most \<open>wrapS\<close> and \<open>wrapT\<close>: the fields
  \<open>wrapR\<close>, \<open>minFilter\<close> and \<open>magFilter\<close> of the result are those of the input, for every
  input and every pair of texture opinions.
\<close>

theorem ResolveUvSamplerParameters_frame:
  "wrapR (ResolveUvSamplerParameters texture samplerParameters) = wrapR samplerParameters \<and>
   minFilter (ResolveUvSamplerParameters texture samplerParameters) =
     minFilter samplerParameters \<and>
   magFilter (ResolveUvSamplerParameters texture samplerParameters) =
     magFilter samplerParameters"
  by (simp add: ResolveUvSamplerParameters_def)

section \<open>Properties of sampler parameters\<close>

text \<open>
  C9: equality of sampler parameters is attribute-wise over the five fields \<open>wrapS\<close>,
  \<open>wrapT\<close>, \<open>wrapR\<close>, \<open>minFilter\<close>, \<open>magFilter\<close>: it is reflexive and symmetric, two
  values compare equal exactly when they agree on all five fields, two values that differ
  only in \<open>magFilter\<close> compare unequal, and \<open>operator!=\<close> is the negation of
  \<open>operator==\<close>.
\<close>

theorem HdStSamplerParameters_eq_attributewise:
  "HdStSamplerParameters_eq a a \<and>
   HdStSamplerParameters_eq a b = HdStSamplerParameters_eq b a \<and>
   HdStSamplerParameters_eq a b =
     (wrapS a = wrapS b \<and> wrapT a = wrapT b \<and> wrapR a = wrapR b \<and>
      minFilter a = minFilter b \<and> magFilter a = magFilter b) \<and>
   HdStSamplerParameters_eq a b = (a = b) \<and>
   (wrapS a = wrapS b \<and> wrapT a = wrapT b \<and> wrapR a = wrapR b \<and>
    minFilter a = minFilter b \<and> magFilter a \<noteq> magFilter b
    \<longrightarrow> \<not> HdStSamplerParameters_eq a b \<and> HdStSamplerParameters_neq a b) \<and>
   HdStSamplerParameters_neq a b = (\<not> HdStSamplerParameters_eq a b)"
  by (cases a; cases b) (auto simp add: HdStSamplerParameters_eq_def HdStSamplerParameters_neq_def)

theorem HdStSamplerParameters_eq_attributewise_witness:
  "HdStSamplerParameters_neq
     \<lparr>wrapS = HdWrapRepeat, wrapT = HdWrapClamp, wrapR = HdWrapBlack,
      minFilter = HdMinFilterLinear, magFilter = HdMagFilterNearest\<rparr>
     \<lparr>wrapS = HdWrapRepeat, wrapT = HdWrapClamp, wrapR = HdWrapBlack,
      minFilter = HdMinFilterLinear, magFilter = HdMagFilterLinear\<rparr> \<and>
   \<not> HdStSamplerParameters_eq
     \<lparr>wrapS = HdWrapRepeat, wrapT = HdWrapClamp, wrapR = HdWrapBlack,
      minFilter = HdMinFilterLinear, magFilter = HdMagFilterNearest\<rparr>
     \<lparr>wrapS = HdWrapRepeat, wrapT = HdWrapClamp, wrapR = HdWrapBlack,
      minFilter = HdMinFilterLinear, magFilter = HdMagFilterLinear\<rparr>"
  using HdStSamplerParameters_eq_attributewise
    [of "\<lparr>wrapS = HdWrapRepeat, wrapT = HdWrapClamp, wrapR = HdWrapBlack,
          minFilter = HdMinFilterLinear, magFilter = HdMagFilterNearest\<rparr>"
        "\<lparr>wrapS = HdWrapRepeat, wrapT = HdWrapClamp, wrapR = HdWrapBlack,
          minFilter = HdMinFilterLinear, magFilter = HdMagFilterLinear\<rparr>"]
  by auto

section \<open>Properties of the handle derivations\<close>

lemma GenGLTextureSamplerHandle_guarded:
  assumes "sampler_texture_guard textureHandle samplerName createFlag"
  shows "GenGLTextureSamplerHandle dev hist textureHandle samplerName createFlag =
    (0, if createFlag \<and> textureHandle = Some HgiOtherTexture
        then [TfCodingError ''Only OpenGL textures supported''] else [])"
  using assms
  by (auto simp add: GenGLTextureSamplerHandle_def sampler_texture_guard_def
      split: option.splits HgiTexture.splits)

lemma GenGLTextureSamplerHandle_derived:
  assumes "\<not> sampler_texture_guard textureHandle samplerName createFlag"
  shows "\<exists>textureName. textureHandle = Some (HgiGLTexture textureName) \<and>
    GenGLTextureSamplerHandle dev hist textureHandle samplerName createFlag =
      (answerGetTextureSamplerHandleARB dev hist textureName samplerName,
       [GlGetTextureSamplerHandleARB textureName samplerName,
        GlMakeTextureHandleResidentARB
          (answerGetTextureSamplerHandleARB dev hist textureName samplerName),
        GlfPostPendingGLErrors])"
  using assms
  by (auto simp add: GenGLTextureSamplerHandle_def sampler_texture_guard_def Let_def
      split: option.splits HgiTexture.splits)

lemma GenGlTextureHandle_cases:
  "GenGlTextureHandle dev hist textureName createFlag =
    (if texture_only_guard textureName createFlag then (0, [])
     else (answerGetTextureHandleARB dev hist textureName,
       [GlGetTextureHandleARB textureName,
        GlMakeTextureHandleResidentARB (answerGetTextureHandleARB dev hist textureName),
        GlfPostPendingGLErrors]))"
  by (simp add: GenGlTextureHandle_def texture_only_guard_def Let_def)

lemma GenGLTextureSamplerHandle_residency:
  "filter is_MakeResident
     (snd (GenGLTextureSamplerHandle dev hist textureHandle samplerName createFlag)) =
    (if sampler_texture_guard textureHandle samplerName createFlag then []
     else [GlMakeTextureHandleResidentARB
       (fst (GenGLTextureSamplerHandle dev hist textureHandle samplerName createFlag))])"
proof (cases "sampler_texture_guard textureHandle samplerName createFlag")
  case True
  then show ?thesis
    by (simp add: GenGLTextureSamplerHandle_guarded)
next
  case False
  from GenGLTextureSamplerHandle_derived [OF False, of dev hist]
  obtain textureName where
    "GenGLTextureSamplerHandle dev hist textureHandle samplerName createFlag =
      (answerGetTextureSamplerHandleARB dev hist textureName samplerName,
       [GlGetTextureSamplerHandleARB textureName samplerName,
        GlMakeTextureHandleResidentARB
          (answerGetTextureSamplerHandleARB dev hist textureName samplerName),
        GlfPostPendingGLErrors])"
    by blast
  with False show ?thesis
    by simp
qed

lemma GenGLTextureSamplerHandle_queries:
  "length (filter is_handle_query
     (snd (GenGLTextureSamplerHandle dev hist textureHandle samplerName createFlag))) =
    (if sampler_texture_guard textureHandle samplerName createFlag then 0 else 1)"
proof (cases "sampler_texture_guard textureHandle samplerName createFlag")
  case True
  then show ?thesis
    by (simp add: GenGLTextureSamplerHandle_guarded)
next
  case False
  from GenGLTextureSamplerHandle_derived [OF False, of dev hist]
  show ?thesis
    using False by auto
qed

text \<open>
  C4: one invocation of a handle derivation (sampler and texture, or texture only) issues
  at most one residency-marking call: exactly one, on the handle it returns, when a
  handle is derived (no guard holds, the handle query is issued), and none when a guard
  makes it return zero early.
\<close>

theorem handle_derivation_residency_calls:
  "length (filter is_MakeResident
     (snd (GenGLTextureSamplerHandle dev hist textureHandle samplerName createFlag))) \<le> 1 \<and>
   filter is_MakeResident
     (snd (GenGLTextureSamplerHandle dev hist textureHandle samplerName createFlag)) =
     (if sampler_texture_guard textureHandle samplerName createFlag then []
      else [GlMakeTextureHandleResidentARB
        (fst (GenGLTextureSamplerHandle dev hist textureHandle samplerName createFlag))]) \<and>
   length (filter is_MakeResident
     (snd (GenGLTextureSamplerHandle dev hist textureHandle samplerName createFlag))) =
     length (filter is_handle_query
       (snd (GenGLTextureSamplerHandle dev hist textureHandle samplerName createFlag))) \<and>
   length (filter is_MakeResident
     (snd (GenGlTextureHandle dev hist textureName createFlag))) \<le> 1 \<and>
   filter is_MakeResident (snd (GenGlTextureHandle dev hist textureName createFlag)) =
     (if texture_only_guard textureName createFlag then []
      else [GlMakeTextureHandleResidentARB
        (fst (GenGlTextureHandle dev hist textureName createFlag))]) \<and>
   length (filter is_MakeResident
     (snd (GenGlTextureHandle dev hist textureName createFlag))) =
     length (filter is_handle_query
       (snd (GenGlTextureHandle dev hist textureName createFlag)))"
  by (simp add: GenGLTextureSamplerHandle_residency GenGLTextureSamplerHandle_queries
      GenGlTextureHandle_cases)

theorem handle_derivation_residency_calls_witness:
  "filter is_MakeResident
     (snd (GenGLTextureSamplerHandle (constDevice 7 5) [] (Some (HgiGLTexture 3)) 7 True)) =
     [GlMakeTextureHandleResidentARB 5] \<and>
   filter is_MakeResident (snd (GenGlTextureHandle (constDevice 7 5) [] 0 True)) = []"
  using handle_derivation_residency_calls
    [of "constDevice 7 5" "[]" "Some (HgiGLTexture 3)" 7 True 0]
  by (simp add: sampler_texture_guard_def texture_only_guard_def
      GenGLTextureSamplerHandle_def GenGlTextureHandle_def constDevice_def)

text \<open>
  C5, as stated, fails: when no guard holds the derivation returns what the device
  answers, and a device may answer zero. Here the create flag is true, the texture is an
  OpenGL texture with identifier 1, the sampler is 1, and the device answers the handle 0.
\<close>

theorem GenGLTextureSamplerHandle_zero_counterexample:
  "\<not> ((fst (GenGLTextureSamplerHandle (constDevice 1 0) []
            (Some (HgiGLTexture 1)) 1 True) = 0) =
       sampler_texture_guard (Some (HgiGLTexture 1)) 1 True)"
  by (simp add: GenGLTextureSamplerHandle_def sampler_texture_guard_def constDevice_def)

text \<open>
  C5 (amended): the sampler and texture derivation returns zero without any device call
  exactly when the create flag is false, the texture resource is absent, its backing is
  not the native kind, the native identifier is zero, or the device sampler is zero. A
  coding error is reported exactly when the create flag is true and the texture is present
  with a backing that is not the native kind; the derivation then still returns zero.
  When no guard holds the texture is an OpenGL texture, the derivation issues the handle
  query for its identifier and the sampler, marks the answer resident, polls the pending
  errors, and returns the answer of the device; so it returns zero exactly when a guard
  holds or the device answers zero. The texture-only derivation likewise returns zero with
  no event at all exactly when the create flag is false or the native identifier is zero,
  and otherwise issues the texture handle query, marks the answer resident, polls the
  pending errors, and returns the answer of the device.
\<close>

theorem handle_derivation_guards:
  "(let r = GenGLTextureSamplerHandle dev hist textureHandle samplerName createFlag
    in ((fst r = 0 \<and> filter is_device_call (snd r) = []) =
          sampler_texture_guard textureHandle samplerName createFlag) \<and>
       ((filter is_CodingError (snd r) \<noteq> []) =
          (createFlag \<and> textureHandle = Some HgiOtherTexture)) \<and>
       (createFlag \<and> textureHandle = Some HgiOtherTexture \<longrightarrow>
          r = (0, [TfCodingError ''Only OpenGL textures supported''])) \<and>
       (sampler_texture_guard textureHandle samplerName createFlag \<and>
        \<not> (createFlag \<and> textureHandle = Some HgiOtherTexture) \<longrightarrow> r = (0, [])) \<and>
       (\<not> sampler_texture_guard textureHandle samplerName createFlag \<longrightarrow>
          (\<exists>textureName. textureHandle = Some (HgiGLTexture textureName) \<and>
             r = (answerGetTextureSamplerHandleARB dev hist textureName samplerName,
                  [GlGetTextureSamplerHandleARB textureName samplerName,
                   GlMakeTextureHandleResidentARB
                     (answerGetTextureSamplerHandleARB dev hist textureName samplerName),
                   GlfPostPendingGLErrors]))) \<and>
       ((fst r = 0) =
          (sampler_texture_guard textureHandle samplerName createFlag \<or>
           (\<exists>textureName. textureHandle = Some (HgiGLTexture textureName) \<and>
              answerGetTextureSamplerHandleARB dev hist textureName samplerName = 0)))) \<and>
   (let r = GenGlTextureHandle dev hist textureName createGLTextureHandle
    in ((fst r = 0 \<and> snd r = []) =
          texture_only_guard textureName createGLTextureHandle) \<and>
       (\<not> texture_only_guard textureName createGLTextureHandle \<longrightarrow>
          r = (answerGetTextureHandleARB dev hist textureName,
               [GlGetTextureHandleARB textureName,
                GlMakeTextureHandleResidentARB
                  (answerGetTextureHandleARB dev hist textureName),
                GlfPostPendingGLErrors])) \<and>
       ((fst r = 0) =
          (texture_only_guard textureName createGLTextureHandle \<or>
           answerGetTextureHandleARB dev hist textureName = 0)))"
proof -
  let ?r = "GenGLTextureSamplerHandle dev hist textureHandle samplerName createFlag"
  let ?g = "sampler_texture_guard textureHandle samplerName createFlag"
  have sampler:
    "((fst ?r = 0 \<and> filter is_device_call (snd ?r) = []) = ?g) \<and>
     ((filter is_CodingError (snd ?r) \<noteq> []) =
        (createFlag \<and> textureHandle = Some HgiOtherTexture)) \<and>
     (createFlag \<and> textureHandle = Some HgiOtherTexture \<longrightarrow>
        ?r = (0, [TfCodingError ''Only OpenGL textures supported''])) \<and>
     (?g \<and> \<not> (createFlag \<and> textureHandle = Some HgiOtherTexture) \<longrightarrow> ?r = (0, [])) \<and>
     (\<not> ?g \<longrightarrow>
        (\<exists>textureName. textureHandle = Some (HgiGLTexture textureName) \<and>
           ?r = (answerGetTextureSamplerHandleARB dev hist textureName samplerName,
                [GlGetTextureSamplerHandleARB textureName samplerName,
                 GlMakeTextureHandleResidentARB
                   (answerGetTextureSamplerHandleARB dev hist textureName samplerName),
                 GlfPostPendingGLErrors]))) \<and>
     ((fst ?r = 0) =
        (?g \<or> (\<exists>textureName. textureHandle = Some (HgiGLTexture textureName) \<and>
           answerGetTextureSamplerHandleARB dev hist textureName samplerName = 0)))"
  proof (cases ?g)
    case True
    from GenGLTextureSamplerHandle_guarded [OF True, of dev hist] True
    show ?thesis
      by (auto simp add: sampler_texture_guard_def)
  next
    case False
    from GenGLTextureSamplerHandle_derived [OF False, of dev hist] False
    show ?thesis
      by (auto simp add: sampler_texture_guard_def)
  qed
  have texture:
    "(let r = GenGlTextureHandle dev hist textureName createGLTextureHandle
      in ((fst r = 0 \<and> snd r = []) =
            texture_only_guard textureName createGLTextureHandle) \<and>
         (\<not> texture_only_guard textureName createGLTextureHandle \<longrightarrow>
            r = (answerGetTextureHandleARB dev hist textureName,
                 [GlGetTextureHandleARB textureName,
                  GlMakeTextureHandleResidentARB
                    (answerGetTextureHandleARB dev hist textureName),
                  GlfPostPendingGLErrors])) \<and>
         ((fst r = 0) =
            (texture_only_guard textureName createGLTextureHandle \<or>
             answerGetTextureHandleARB dev hist textureName = 0)))"
    by (simp add: GenGlTextureHandle_cases Let_def)
  from sampler texture show ?thesis
    by (simp only: Let_def) blast
qed

theorem handle_derivation_guards_witness:
  "GenGLTextureSamplerHandle (constDevice 7 5) [] (Some HgiOtherTexture) 7 True =
     (0, [TfCodingError ''Only OpenGL textures supported'']) \<and>
   GenGLTextureSamplerHandle (constDevice 7 5) [] (Some (HgiGLTexture 0)) 7 True = (0, []) \<and>
   GenGLTextureSamplerHandle (constDevice 7 5) [] (Some (HgiGLTexture 3)) 7 True =
     (5, [GlGetTextureSamplerHandleARB 3 7, GlMakeTextureHandleResidentARB 5,
          GlfPostPendingGLErrors]) \<and>
   GenGlTextureHandle (constDevice 7 5) [] 0 True = (0, []) \<and>
   GenGlTextureHandle (constDevice 7 5) [] 3 True =
     (5, [GlGetTextureHandleARB 3, GlMakeTextureHandleResidentARB 5,
          GlfPostPendingGLErrors])"
proof -
  have other:
    "GenGLTextureSamplerHandle (constDevice 7 5) [] (Some HgiOtherTexture) 7 True =
       (0, [TfCodingError ''Only OpenGL textures supported''])"
    using handle_derivation_guards
      [of "constDevice 7 5" "[]" "Some HgiOtherTexture" 7 True 0 True]
    by (simp add: Let_def)
  have zero_id:
    "GenGLTextureSamplerHandle (constDevice 7 5) [] (Some (HgiGLTexture 0)) 7 True = (0, [])"
    using handle_derivation_guards
      [of "constDevice 7 5" "[]" "Some (HgiGLTexture 0)" 7 True 0 True]
    by (simp add: Let_def sampler_texture_guard_def)
  have derived:
    "GenGLTextureSamplerHandle (constDevice 7 5) [] (Some (HgiGLTexture 3)) 7 True =
       (5, [GlGetTextureSamplerHandleARB 3 7, GlMakeTextureHandleResidentARB 5,
            GlfPostPendingGLErrors])"
    using handle_derivation_guards
      [of "constDevice 7 5" "[]" "Some (HgiGLTexture 3)" 7 True 0 True]
    by (simp add: Let_def sampler_texture_guard_def constDevice_def)
  have tex_zero: "GenGlTextureHandle (constDevice 7 5) [] 0 True = (0, [])"
    using handle_derivation_guards
      [of "constDevice 7 5" "[]" "Some HgiOtherTexture" 7 True 0 True]
    by (simp add: Let_def texture_only_guard_def prod_eq_iff)
  have tex_derived:
    "GenGlTextureHandle (constDevice 7 5) [] 3 True =
       (5, [GlGetTextureHandleARB 3, GlMakeTextureHandleResidentARB 5,
            GlfPostPendingGLErrors])"
    using handle_derivation_guards
      [of "constDevice 7 5" "[]" "Some HgiOtherTexture" 7 True 3 True]
    by (simp add: Let_def texture_only_guard_def constDevice_def)
  from other zero_id derived tex_zero tex_derived show ?thesis
    by simp
qed

section \<open>Properties of the sampler objects\<close>

lemma GenGlTextureHandle_no_GenSamplers:
  "filter is_GenSamplers (snd (GenGlTextureHandle dev hist textureName createFlag)) = []"
  by (simp add: GenGlTextureHandle_def Let_def)

text \<open>
  C2: whatever handles a Uv or a Field sampler object holds, its destruction issues no
  make-handle-non-resident call, and it issues a delete-sampler call, for its own sampler,
  if and only if the stored device sampler is non-zero.
\<close>

theorem sampler_delete_no_non_resident:
  "filter is_MakeNonResident (HdStUvSamplerObject_delete uv) = [] \<and>
   filter is_DeleteSamplers (HdStUvSamplerObject_delete uv) =
     (if uv_glSamplerName uv \<noteq> 0 then [GlDeleteSamplers 1 (uv_glSamplerName uv)] else []) \<and>
   ((filter is_DeleteSamplers (HdStUvSamplerObject_delete uv) \<noteq> []) =
      (uv_glSamplerName uv \<noteq> 0)) \<and>
   filter is_MakeNonResident (HdStFieldSamplerObject_delete field) = [] \<and>
   filter is_DeleteSamplers (HdStFieldSamplerObject_delete field) =
     (if field_glSamplerName field \<noteq> 0
      then [GlDeleteSamplers 1 (field_glSamplerName field)] else []) \<and>
   ((filter is_DeleteSamplers (HdStFieldSamplerObject_delete field) \<noteq> []) =
      (field_glSamplerName field \<noteq> 0))"
  by (simp add: HdStUvSamplerObject_delete_def HdStFieldSamplerObject_delete_def)

text \<open>
  C3: constructing a Ptex sampler object allocates no device sampler, and the sampler
  parameters have no effect on the object or on the events of the construction; its
  destruction issues one make-handle-non-resident call per non-zero handle held, first
  for the texel handle and then for the layout handle, each exactly when that handle is
  non-zero (so 0, 1 or 2 calls), and nothing else.
\<close>

theorem ptex_sampler_lifetime:
  "filter is_GenSamplers
     (snd (HdStPtexSamplerObject_new dev hist ptexTexture samplerParameters createFlag)) = [] \<and>
   HdStPtexSamplerObject_new dev hist ptexTexture samplerParameters createFlag =
     HdStPtexSamplerObject_new dev hist ptexTexture otherParameters createFlag \<and>
   HdStPtexSamplerObject_delete ptex =
     (if texelsGLTextureHandle ptex \<noteq> 0
        then [GlMakeTextureHandleNonResidentARB (texelsGLTextureHandle ptex)] else []) @
     (if layoutGLTextureHandle ptex \<noteq> 0
        then [GlMakeTextureHandleNonResidentARB (layoutGLTextureHandle ptex)] else []) \<and>
   filter is_MakeNonResident (HdStPtexSamplerObject_delete ptex) =
     HdStPtexSamplerObject_delete ptex \<and>
   length (filter is_MakeNonResident (HdStPtexSamplerObject_delete ptex)) =
     (if texelsGLTextureHandle ptex \<noteq> 0 then 1 else 0) +
     (if layoutGLTextureHandle ptex \<noteq> 0 then 1 else 0)"
proof -
  have "filter is_GenSamplers
     (snd (HdStPtexSamplerObject_new dev hist ptexTexture samplerParameters createFlag)) = []"
    by (simp add: HdStPtexSamplerObject_new_def split_beta GenGlTextureHandle_no_GenSamplers)
  moreover have
    "HdStPtexSamplerObject_new dev hist ptexTexture samplerParameters createFlag =
     HdStPtexSamplerObject_new dev hist ptexTexture otherParameters createFlag"
    by (simp add: HdStPtexSamplerObject_new_def)
  ultimately show ?thesis
    by (simp add: HdStPtexSamplerObject_delete_def)
qed

text \<open>
  C7: a Uv sampler object constructed for a texture with authored wrap opinions
  (Repeat, NoOpinion), caller parameters wrapS = NoOpinion, wrapT = Clamp,
  minFilter = Linear, magFilter = Nearest, and createBindlessHandle = false: the device
  sampler it generates is configured with wrapS = Repeat and wrapT = Clamp, and the
  bindless sampler-texture handle of the object is zero. This holds for every device,
  history, conversion table, texture handle and wrapR.
\<close>

theorem uv_sampler_end_to_end:
  "HdStUvSamplerObject_new conv dev hist
     \<lparr>GetWrapParameters = (HdWrapRepeat, HdWrapNoOpinion), uvGetTexture = textureHandle\<rparr>
     \<lparr>wrapS = HdWrapNoOpinion, wrapT = HdWrapClamp, wrapR = r,
      minFilter = HdMinFilterLinear, magFilter = HdMagFilterNearest\<rparr>
     False =
   (\<lparr>uv_glSamplerName = answerGenSamplers dev hist, uv_glTextureSamplerHandle = 0\<rparr>,
    [GlGenSamplers 1,
     GlSamplerParameteri (answerGenSamplers dev hist) GL_TEXTURE_WRAP_S
       (GetWrap conv HdWrapRepeat),
     GlSamplerParameteri (answerGenSamplers dev hist) GL_TEXTURE_WRAP_T
       (GetWrap conv HdWrapClamp),
     GlSamplerParameteri (answerGenSamplers dev hist) GL_TEXTURE_WRAP_R
       (GetWrap conv r),
     GlSamplerParameteri (answerGenSamplers dev hist) GL_TEXTURE_MIN_FILTER
       (GetMinFilter conv HdMinFilterLinear),
     GlSamplerParameteri (answerGenSamplers dev hist) GL_TEXTURE_MAG_FILTER
       (GetMagFilter conv HdMagFilterNearest),
     GlSamplerParameterfv (answerGenSamplers dev hist) GL_TEXTURE_BORDER_COLOR [0, 0, 0, 0],
     GlSamplerParameterf (answerGenSamplers dev hist) GL_TEXTURE_MAX_ANISOTROPY_EXT 16,
     GlfPostPendingGLErrors])"
  by (simp add: HdStUvSamplerObject_new_def GenGLSampler_def GenGLTextureSamplerHandle_def
      ResolveUvSamplerParameters_def ResolveSamplerParameter_def Let_def
      borderColor_def maxAnisotropy_def)

end
